theory Spec2Isabelle
  imports Main "HOL-Library.Word"
begin

section \<open>The configuration and entry layer of overseer\<close>

text \<open>
  The embedding follows the package file that declares \<open>Config\<close>, \<open>validate\<close>,
  \<open>RunErr\<close>, \<open>Run\<close>, \<open>sanityCheck\<close>, \<open>SanityCheck\<close>, \<open>runErr\<close> and \<open>Restart\<close>.
  A Go \<open>error\<close> is modelled by its message, \<open>nil\<close> by \<open>None\<close>. A function value is a
  reference (its behaviour is the caller's), a nil function is \<open>None\<close>.
\<close>

subsection \<open>Constants\<close>

definition envSlaveID :: string where
  "envSlaveID = ''OVERSEER_SLAVE_ID''"

definition envIsSlave :: string where
  "envIsSlave = ''OVERSEER_IS_SLAVE''"

definition envNumFDs :: string where
  "envNumFDs = ''OVERSEER_NUM_FDS''"

definition envBinID :: string where
  "envBinID = ''OVERSEER_BIN_ID''"

definition envBinPath :: string where
  "envBinPath = ''OVERSEER_BIN_PATH''"

definition envBinCheck :: string where
  "envBinCheck = ''OVERSEER_BIN_CHECK''"

definition envBinCheckLegacy :: string where
  "envBinCheckLegacy = ''GO_UPGRADE_BIN_CHECK''"

subsection \<open>Data\<close>

type_synonym error = string

type_synonym Signal = int

text \<open>\<open>time.Duration\<close> is a signed 64-bit count of nanoseconds.\<close>

type_synonym Duration = "64 word"

definition Second :: Duration where
  "Second = 1000000000"

type_synonym func_ref = nat

type_synonym addr = nat

record Config =
  Required :: bool
  Program :: "func_ref option"
  Address :: string
  Addresses :: "string list"
  RestartSignal :: "Signal option"
  TerminateTimeout :: Duration
  MinFetchInterval :: Duration
  PreUpgrade :: "func_ref option"
  Debug :: bool
  NoWarn :: bool
  NoRestart :: bool
  NoRestartAfterFetch :: bool
  Fetcher :: "func_ref option"

text \<open>
  Modelled from the spec: the type \<open>State\<close> and the value \<open>DisabledState\<close> are declared in
  a file of the package that is not among the sources. The spec describes the disabled
  state as having no listeners and the identifier "disabled".
\<close>

record State =
  ID :: string
  Listeners :: "string list"

definition DisabledState :: State where
  "DisabledState = \<lparr>ID = ''disabled'', Listeners = []\<rparr>"

text \<open>
  The two implementations behind \<open>currentProcess\<close>, each holding the pointer to the
  \<open>Config\<close> it was built with.
\<close>

datatype process = master addr | slave addr

text \<open>
  What the file uses but does not declare: the build-time flag \<open>supported\<close>, the
  signal \<open>SIGUSR2\<close>, \<open>runtime.GOOS\<close>, and the result of the \<open>run\<close> method of the master
  and the slave. They are parameters of the model.
\<close>

record externals =
  supported :: bool
  GOOS :: string
  SIGUSR2 :: Signal
  proc_run :: "process \<Rightarrow> error option"

datatype event =
    ProgramCalled func_ref State
  | ProcessRun process
  | RestartTriggered process

datatype outcome = Returned | Exited int | Panicked

text \<open>
  The state of the operating-system process: its environment, what was written to
  standard output and to the logger, the \<open>Config\<close> variables in memory (a pointer is the
  address of one of them; \<open>next_addr\<close> is the first unused address), the package variable
  \<open>currentProcess\<close>, and the calls made into code outside this file.
\<close>

record world =
  environ :: "string \<rightharpoonup> string"
  stdout :: string
  logged :: "string list"
  heap :: "addr \<Rightarrow> Config"
  next_addr :: addr
  currentProcess :: "process option"
  trace :: "event list"

subsection \<open>Operations\<close>

text \<open>\<open>os.Getenv\<close>: the value of the variable, empty when it is not set.\<close>

definition Getenv :: "world \<Rightarrow> string \<Rightarrow> string" where
  "Getenv w k = (case environ w k of None \<Rightarrow> [] | Some v \<Rightarrow> v)"

text \<open>
  \<open>validate\<close> takes the \<open>Config\<close> its pointer argument refers to and returns the error
  together with the \<open>Config\<close> as the call leaves it.
\<close>

definition validate :: "externals \<Rightarrow> Config \<Rightarrow> error option \<times> Config" where
  "validate ext c =
     (if Program c = None then (Some ''overseer.Config.Program required'', c)
      else if Address c \<noteq> [] \<and> length (Addresses c) > 0
        then (Some ''overseer.Config.Address and Addresses cant both be set'', c)
      else
        let c1 = (if Address c \<noteq> [] then c\<lparr>Addresses := [Address c]\<rparr>
                  else if length (Addresses c) > 0 then c\<lparr>Address := Addresses c ! 0\<rparr>
                  else c);
            c2 = (if RestartSignal c1 = None
                  then c1\<lparr>RestartSignal := Some (SIGUSR2 ext)\<rparr> else c1);
            c3 = (if sint (TerminateTimeout c2) \<le> 0
                  then c2\<lparr>TerminateTimeout := 30 * Second\<rparr> else c2);
            c4 = (if sint (MinFetchInterval c3) \<le> 0
                  then c3\<lparr>MinFetchInterval := 1 * Second\<rparr> else c3)
        in (None, c4))"

text \<open>\<open>sanityCheck\<close> returns true if a check was performed.\<close>

definition sanityCheck :: "world \<Rightarrow> bool \<times> world" where
  "sanityCheck w =
     (let token = Getenv w envBinCheck in
      if token \<noteq> [] then (True, w\<lparr>stdout := stdout w @ token\<rparr>)
      else
        let token = Getenv w envBinCheckLegacy in
        if token \<noteq> [] then (True, w\<lparr>stdout := stdout w @ token\<rparr>)
        else (False, w))"

definition SanityCheck :: "world \<Rightarrow> outcome \<times> world" where
  "SanityCheck w =
     (case sanityCheck w of
        (True, w') \<Rightarrow> (Exited 0, w')
      | (False, w') \<Rightarrow> (Returned, w'))"

text \<open>\<open>runErr\<close> works on the \<open>Config\<close> at address \<open>c\<close>.\<close>

definition runErr :: "externals \<Rightarrow> addr \<Rightarrow> world \<Rightarrow> error option \<times> world" where
  "runErr ext c w =
     (if \<not> supported ext then (Some (''os ('' @ GOOS ext @ '') not supported''), w)
      else
        case validate ext (heap w c) of
          (Some err, c') \<Rightarrow> (Some err, w\<lparr>heap := (heap w)(c := c')\<rparr>)
        | (None, c') \<Rightarrow>
            (case sanityCheck (w\<lparr>heap := (heap w)(c := c')\<rparr>) of
               (True, w2) \<Rightarrow> (None, w2)
             | (False, w2) \<Rightarrow>
                 let p = (if Getenv w2 envIsSlave = ''1'' then slave c else master c);
                     w3 = w2\<lparr>currentProcess := Some p\<rparr>
                 in (proc_run ext p, w3\<lparr>trace := trace w3 @ [ProcessRun p]\<rparr>)))"

text \<open>
  A \<open>Config\<close> passed by value becomes a new variable of the callee, at the first unused
  address.
\<close>

definition param :: "Config \<Rightarrow> world \<Rightarrow> addr \<times> world" where
  "param c w =
     (next_addr w, w\<lparr>heap := (heap w)(next_addr w := c), next_addr := Suc (next_addr w)\<rparr>)"

definition RunErr :: "externals \<Rightarrow> Config \<Rightarrow> world \<Rightarrow> error option \<times> world" where
  "RunErr ext c0 w = (case param c0 w of (c, w1) \<Rightarrow> runErr ext c w1)"

definition log_Print :: "string \<Rightarrow> world \<Rightarrow> world" where
  "log_Print msg w = w\<lparr>logged := logged w @ [msg]\<rparr>"

text \<open>
  \<open>Run\<close>: \<open>log.Fatalf\<close> writes the message and exits with status 1; calling a nil
  \<open>Program\<close> panics; a \<open>Program\<close> that is set is called and taken to return.
\<close>

definition Run :: "externals \<Rightarrow> Config \<Rightarrow> world \<Rightarrow> outcome \<times> world" where
  "Run ext c0 w =
     (case param c0 w of (c, w1) \<Rightarrow>
        (case runErr ext c w1 of
           (Some err, w2) \<Rightarrow>
             if Required (heap w2 c)
             then (Exited 1, log_Print (''[overseer] '' @ err) w2)
             else
               let w3 = (if Debug (heap w2 c) \<or> \<not> NoWarn (heap w2 c)
                         then log_Print (''[overseer] disabled. run failed: '' @ err) w2
                         else w2)
               in (case Program (heap w3 c) of
                     None \<Rightarrow> (Panicked, w3)
                   | Some f \<Rightarrow>
                       (Returned, w3\<lparr>trace := trace w3 @ [ProgramCalled f DisabledState]\<rparr>))
         | (None, w2) \<Rightarrow> (Exited 0, w2)))"

definition Restart :: "world \<Rightarrow> outcome \<times> world" where
  "Restart w =
     (case currentProcess w of
        None \<Rightarrow> (Returned, w)
      | Some p \<Rightarrow> (Returned, w\<lparr>trace := trace w @ [RestartTriggered p]\<rparr>))"

definition IsSupported :: "externals \<Rightarrow> bool" where
  "IsSupported ext = supported ext"

subsection \<open>The upgrade pipeline of the master\<close>

text \<open>
  Modelled from the spec: the master controller, with its fetch loop and its candidate
  validation pipeline, is in a file of the package that is not among the sources. The
  definitions of this subsection follow section 4.2 of the specification (candidate
  validation pipeline), section 4.4 (the three results of a fetch) and section 7
  (a failed rename leaves the current binary authoritative).
\<close>

type_synonym binary = string

type_synonym path = string

text \<open>
  Modelled from the spec: the result of executing a candidate with the token variable
  set, under the bounded timeout: its standard output and exit status, or a timeout.
\<close>

datatype exec_result = Output string int | Timeout

text \<open>
  Modelled from the spec: a candidate is the binary data the fetcher yields, together
  with what the pre-upgrade hook returns for it and how it behaves when executed with a
  given token.
\<close>

record candidate =
  bytes :: binary
  hook_error :: "error option"
  check_run :: "string \<Rightarrow> exec_result"

text \<open>Modelled from the spec: a fetch yields no update, a new binary, or an error.\<close>

datatype fetched = NoUpdate | NewBinary candidate | FetchError error

text \<open>
  Modelled from the spec: one cycle of the fetch loop, with the fresh random token of
  its sanity check and whether the rename of its swap succeeds.
\<close>

record cycle =
  fetch_result :: fetched
  token :: string
  rename_ok :: bool

text \<open>
  Modelled from the spec: the binary identity kept by the master: the files, the path of
  the running binary, the temporary path in the same directory, and the generation
  identifier.
\<close>

record master_state =
  files :: "path \<rightharpoonup> binary"
  binPath :: path
  tmpPath :: path
  generation :: nat
  mlog :: "error list"

text \<open>Modelled from the spec: the trusted binary is the file at the running binary's path.\<close>

definition trusted :: "master_state \<Rightarrow> binary option" where
  "trusted m = files m (binPath m)"

text \<open>
  Modelled from the spec: the sanity check requires standard output to equal exactly the
  token; wrong output, a timeout and a non-zero exit are failures.
\<close>

definition token_matches :: "string \<Rightarrow> exec_result \<Rightarrow> bool" where
  "token_matches tok r =
     (case r of Output out status \<Rightarrow> out = tok \<and> status = 0 | Timeout \<Rightarrow> False)"

text \<open>Modelled from the spec: aborting an upgrade deletes the temporary file and logs.\<close>

definition discard :: "error \<Rightarrow> master_state \<Rightarrow> master_state" where
  "discard e m = m\<lparr>files := (files m)(tmpPath m := None), mlog := mlog m @ [e]\<rparr>"

text \<open>
  Modelled from the spec: the candidate validation pipeline. The candidate is written
  to the temporary path; an error of the pre-upgrade hook aborts; a failed sanity check
  aborts identically; otherwise the temporary file is renamed over the running binary's
  path and the generation identifier is incremented. A failed rename is logged and the
  current binary stays.
\<close>

definition upgrade :: "candidate \<Rightarrow> string \<Rightarrow> bool \<Rightarrow> master_state \<Rightarrow> master_state" where
  "upgrade cand tok ren m =
     (let m1 = m\<lparr>files := (files m)(tmpPath m \<mapsto> bytes cand)\<rparr> in
      case hook_error cand of
        Some e \<Rightarrow> discard e m1
      | None \<Rightarrow>
          if \<not> token_matches tok (check_run cand tok)
          then discard ''sanity check failed'' m1
          else if \<not> ren then m1\<lparr>mlog := mlog m1 @ [''swap failed'']\<rparr>
          else m1\<lparr>files := ((files m1)(tmpPath m1 := None))(binPath m1 \<mapsto> bytes cand),
                  generation := Suc (generation m1)\<rparr>)"

text \<open>
  Modelled from the spec: one cycle of the fetch loop. No update changes nothing, a
  fetch error is logged, new binary data enters the validation pipeline.
\<close>

definition fetch_cycle :: "cycle \<Rightarrow> master_state \<Rightarrow> master_state" where
  "fetch_cycle cy m =
     (case fetch_result cy of
        NoUpdate \<Rightarrow> m
      | FetchError e \<Rightarrow> m\<lparr>mlog := mlog m @ [e]\<rparr>
      | NewBinary cand \<Rightarrow> upgrade cand (token cy) (rename_ok cy) m)"

text \<open>
  Modelled from the spec: the fetch loop, run for the given cycles. The loop of the
  master does not end; this is its state after any finite number of cycles.
\<close>

fun fetch_loop :: "cycle list \<Rightarrow> master_state \<Rightarrow> master_state" where
  "fetch_loop [] m = m"
| "fetch_loop (cy # cys) m = fetch_loop cys (fetch_cycle cy m)"

text \<open>
  Modelled from the spec: the binary a cycle swaps in, if any: the data of a candidate
  whose hook returned no error, whose sanity check passed and whose rename succeeded.
\<close>

definition swapped :: "cycle \<Rightarrow> binary option" where
  "swapped cy =
     (case fetch_result cy of
        NewBinary cand \<Rightarrow>
          if hook_error cand = None \<and> token_matches (token cy) (check_run cand (token cy))
             \<and> rename_ok cy
          then Some (bytes cand) else None
      | _ \<Rightarrow> None)"

text \<open>Modelled from the spec: the binaries swapped in by a run of cycles, in order.\<close>

fun accepted :: "cycle list \<Rightarrow> binary list" where
  "accepted [] = []"
| "accepted (cy # cys) =
     (case swapped cy of Some b \<Rightarrow> b # accepted cys | None \<Rightarrow> accepted cys)"

subsection \<open>Reading the trace\<close>


subsection \<open>Classification of errors\<close>

text \<open>
  The errors that \<open>validate\<close> creates are the ones the specification calls
  \<open>ConfigInvalid\<close>.
\<close>

definition ConfigInvalid :: "error \<Rightarrow> bool" where
  "ConfigInvalid e \<longleftrightarrow>
     e = ''overseer.Config.Program required'' \<or>
     e = ''overseer.Config.Address and Addresses cant both be set''"

subsection \<open>Concrete inputs\<close>

definition ext0 :: externals where
  "ext0 = \<lparr>supported = True, GOOS = ''linux'', SIGUSR2 = 12, proc_run = (\<lambda>p. None)\<rparr>"

definition cfg0 :: Config where
  "cfg0 = \<lparr>Required = False, Program = Some 0, Address = [], Addresses = [],
           RestartSignal = None, TerminateTimeout = 0, MinFetchInterval = 0,
           PreUpgrade = None, Debug = False, NoWarn = False, NoRestart = False,
           NoRestartAfterFetch = False, Fetcher = None\<rparr>"

definition world0 :: world where
  "world0 = \<lparr>environ = Map.empty, stdout = [], logged = [], heap = (\<lambda>a. cfg0),
             next_addr = 0, currentProcess = None, trace = []\<rparr>"

text \<open>A process in which the caller's \<open>Config\<close> is the variable at address 0.\<close>

definition world1 :: world where
  "world1 = world0\<lparr>next_addr := 1\<rparr>"


definition world_legacy :: world where
  "world_legacy = world0\<lparr>environ := [envBinCheckLegacy \<mapsto> ''tok'']\<rparr>"

definition world_marker :: world where
  "world_marker = world0\<lparr>environ := [envIsSlave \<mapsto> ''0'']\<rparr>"

definition world_slave :: world where
  "world_slave = world0\<lparr>environ := [envIsSlave \<mapsto> ''1'']\<rparr>"

text \<open>A master running version 1, and candidates that pass or fail validation.\<close>

definition master0 :: master_state where
  "master0 = \<lparr>files = [''/srv/app'' \<mapsto> ''v1''], binPath = ''/srv/app'',
              tmpPath = ''/srv/app.tmp'', generation = 1, mlog = []\<rparr>"

definition cand_good :: candidate where
  "cand_good = \<lparr>bytes = ''v2'', hook_error = None, check_run = (\<lambda>t. Output t 0)\<rparr>"

definition cand_hook :: candidate where
  "cand_hook = \<lparr>bytes = ''v3'', hook_error = Some ''rejected'',
                check_run = (\<lambda>t. Output t 0)\<rparr>"

definition cand_output :: candidate where
  "cand_output = \<lparr>bytes = ''v4'', hook_error = None, check_run = (\<lambda>t. Output ''hello'' 0)\<rparr>"

definition cand_timeout :: candidate where
  "cand_timeout = \<lparr>bytes = ''v5'', hook_error = None, check_run = (\<lambda>t. Timeout)\<rparr>"

definition cand_status :: candidate where
  "cand_status = \<lparr>bytes = ''v6'', hook_error = None, check_run = (\<lambda>t. Output t 1)\<rparr>"

definition cycles0 :: "cycle list" where
  "cycles0 =
     [\<lparr>fetch_result = NewBinary cand_hook, token = ''t1'', rename_ok = True\<rparr>,
      \<lparr>fetch_result = NoUpdate, token = ''t2'', rename_ok = True\<rparr>,
      \<lparr>fetch_result = NewBinary cand_good, token = ''t3'', rename_ok = True\<rparr>,
      \<lparr>fetch_result = NewBinary cand_output, token = ''t4'', rename_ok = True\<rparr>,
      \<lparr>fetch_result = FetchError ''unreachable'', token = ''t5'', rename_ok = True\<rparr>,
      \<lparr>fetch_result = NewBinary cand_timeout, token = ''t6'', rename_ok = True\<rparr>,
      \<lparr>fetch_result = NewBinary cand_status, token = ''t7'', rename_ok = True\<rparr>]"

section \<open>Validation\<close>

lemma validate_error_keeps: "fst (validate ext c) \<noteq> None \<Longrightarrow> snd (validate ext c) = c"
  by (simp add: validate_def Let_def split: if_splits)

text \<open>
  C6. Validation fails with a \<open>ConfigInvalid\<close> error for every \<open>Config\<close> in which both
  \<open>Address\<close> is non-empty and \<open>Addresses\<close> has positive length, and for every \<open>Config\<close>
  whose \<open>Program\<close> is nil.
\<close>

theorem validate_rejects:
  "(Address c \<noteq> [] \<and> length (Addresses c) > 0 \<or> Program c = None) \<Longrightarrow>
     \<exists>e. fst (validate ext c) = Some e \<and> ConfigInvalid e"
  by (auto simp: validate_def ConfigInvalid_def)

theorem validate_rejects_witness:
  "(\<exists>e. fst (validate ext0 (cfg0\<lparr>Address := '':5001'', Addresses := ['':5002'']\<rparr>)) = Some e
        \<and> ConfigInvalid e)
   \<and> (\<exists>e. fst (validate ext0 (cfg0\<lparr>Program := None\<rparr>)) = Some e \<and> ConfigInvalid e)"
  using validate_rejects [of "cfg0\<lparr>Address := '':5001'', Addresses := ['':5002'']\<rparr>" ext0]
    validate_rejects [of "cfg0\<lparr>Program := None\<rparr>" ext0]
  by (simp add: cfg0_def)

section \<open>Address normalisation and defaults\<close>

lemma validate_ok_iff:
  "fst (validate ext c) = None \<longleftrightarrow>
     Program c \<noteq> None \<and> \<not> (Address c \<noteq> [] \<and> Addresses c \<noteq> [])"
  by (simp add: validate_def Let_def)

lemma validate_frame:
  "Required (snd (validate ext c)) = Required c"
  "Program (snd (validate ext c)) = Program c"
  "PreUpgrade (snd (validate ext c)) = PreUpgrade c"
  "Debug (snd (validate ext c)) = Debug c"
  "NoWarn (snd (validate ext c)) = NoWarn c"
  "NoRestart (snd (validate ext c)) = NoRestart c"
  "NoRestartAfterFetch (snd (validate ext c)) = NoRestartAfterFetch c"
  "Fetcher (snd (validate ext c)) = Fetcher c"
  by (simp_all add: validate_def Let_def)

text \<open>
  C5, as stated, fails: a \<open>Config\<close> with \<open>Program\<close> set and neither \<open>Address\<close> nor
  \<open>Addresses\<close> passes validation and its \<open>Addresses\<close> stays empty.
\<close>

theorem validate_no_address_counterexample:
  "fst (validate ext0 cfg0) = None \<and> Addresses (snd (validate ext0 cfg0)) = []
     \<and> Address (snd (validate ext0 cfg0)) = []"
  by (simp add: validate_def cfg0_def Let_def)

text \<open>
  C5, amended. After a successful validation: if \<open>Address\<close> or \<open>Addresses\<close> was set, then
  \<open>Addresses\<close> is non-empty and \<open>Address\<close> is its first element; a given \<open>Address\<close>
  (then \<open>Addresses\<close> was empty) is kept and becomes the one-element list; a given
  \<open>Addresses\<close> list is kept as it is, in order; if neither was set, both stay empty.
\<close>

theorem validate_addresses:
  assumes "fst (validate ext c) = None"
  shows "(Address c \<noteq> [] \<or> Addresses c \<noteq> [] \<longrightarrow>
            Addresses (snd (validate ext c)) \<noteq> [] \<and>
            Address (snd (validate ext c)) = hd (Addresses (snd (validate ext c))))
       \<and> (Address c \<noteq> [] \<longrightarrow>
            Addresses c = [] \<and> Addresses (snd (validate ext c)) = [Address c] \<and>
            Address (snd (validate ext c)) = Address c)
       \<and> (Address c = [] \<longrightarrow>
            Addresses (snd (validate ext c)) = Addresses c)
       \<and> (Address c = [] \<and> Addresses c = [] \<longrightarrow>
            Address (snd (validate ext c)) = [] \<and> Addresses (snd (validate ext c)) = [])"
  using assms
  by (auto simp: validate_def Let_def hd_conv_nth split: if_splits)

theorem validate_addresses_witness:
  "fst (validate ext0 (cfg0\<lparr>Address := '':5001''\<rparr>)) = None
   \<and> Addresses (snd (validate ext0 (cfg0\<lparr>Address := '':5001''\<rparr>))) = ['':5001'']
   \<and> Address (snd (validate ext0 (cfg0\<lparr>Address := '':5001''\<rparr>))) = '':5001''
   \<and> fst (validate ext0 (cfg0\<lparr>Addresses := ['':8080'', '':9090'']\<rparr>)) = None
   \<and> Addresses (snd (validate ext0 (cfg0\<lparr>Addresses := ['':8080'', '':9090'']\<rparr>)))
        = ['':8080'', '':9090'']
   \<and> Address (snd (validate ext0 (cfg0\<lparr>Addresses := ['':8080'', '':9090'']\<rparr>))) = '':8080''"
proof -
  have a: "fst (validate ext0 (cfg0\<lparr>Address := '':5001''\<rparr>)) = None"
    by (simp add: validate_ok_iff cfg0_def)
  have b: "fst (validate ext0 (cfg0\<lparr>Addresses := ['':8080'', '':9090'']\<rparr>)) = None"
    by (simp add: validate_ok_iff cfg0_def)
  show ?thesis
    using a b validate_addresses [OF a] validate_addresses [OF b]
    by (simp add: cfg0_def)
qed

text \<open>
  C7, as stated, fails: a negative \<open>TerminateTimeout\<close> is a value the caller has set,
  and validation replaces it by 30 seconds (likewise a negative \<open>MinFetchInterval\<close>).
\<close>

theorem validate_negative_timeout_counterexample:
  "fst (validate ext0 (cfg0\<lparr>TerminateTimeout := - 1, MinFetchInterval := - 5\<rparr>)) = None
   \<and> TerminateTimeout (cfg0\<lparr>TerminateTimeout := - 1, MinFetchInterval := - 5\<rparr>) \<noteq> 0
   \<and> TerminateTimeout
        (snd (validate ext0 (cfg0\<lparr>TerminateTimeout := - 1, MinFetchInterval := - 5\<rparr>)))
       = 30000000000
   \<and> MinFetchInterval
        (snd (validate ext0 (cfg0\<lparr>TerminateTimeout := - 1, MinFetchInterval := - 5\<rparr>)))
       = 1000000000"
  by (simp add: validate_def cfg0_def Let_def Second_def)

text \<open>
  C7, amended. After a successful validation: a nil \<open>RestartSignal\<close> has become
  \<open>SIGUSR2\<close> and a given one is unchanged; a \<open>TerminateTimeout\<close> that is zero or
  negative has become 30 seconds and a positive one is unchanged; a \<open>MinFetchInterval\<close>
  that is zero or negative has become 1 second and a positive one is unchanged; the
  fields other than these and the addresses are unchanged.
\<close>

theorem validate_defaults:
  assumes "fst (validate ext c) = None"
  shows "RestartSignal (snd (validate ext c)) =
           (case RestartSignal c of None \<Rightarrow> Some (SIGUSR2 ext) | Some s \<Rightarrow> Some s)
       \<and> TerminateTimeout (snd (validate ext c)) =
           (if sint (TerminateTimeout c) \<le> 0 then 30 * Second else TerminateTimeout c)
       \<and> MinFetchInterval (snd (validate ext c)) =
           (if sint (MinFetchInterval c) \<le> 0 then 1 * Second else MinFetchInterval c)
       \<and> sint (30 * Second) = 30000000000 \<and> sint (1 * Second) = 1000000000
       \<and> Required (snd (validate ext c)) = Required c
       \<and> Program (snd (validate ext c)) = Program c
       \<and> PreUpgrade (snd (validate ext c)) = PreUpgrade c
       \<and> Debug (snd (validate ext c)) = Debug c
       \<and> NoWarn (snd (validate ext c)) = NoWarn c
       \<and> NoRestart (snd (validate ext c)) = NoRestart c
       \<and> NoRestartAfterFetch (snd (validate ext c)) = NoRestartAfterFetch c
       \<and> Fetcher (snd (validate ext c)) = Fetcher c"
proof -
  have "RestartSignal (snd (validate ext c)) =
           (case RestartSignal c of None \<Rightarrow> Some (SIGUSR2 ext) | Some s \<Rightarrow> Some s)"
    using assms by (auto simp: validate_def Let_def split: if_splits option.splits)
  moreover have "TerminateTimeout (snd (validate ext c)) =
           (if sint (TerminateTimeout c) \<le> 0 then 30 * Second else TerminateTimeout c)"
    using assms by (auto simp: validate_def Let_def split: if_splits)
  moreover have "MinFetchInterval (snd (validate ext c)) =
           (if sint (MinFetchInterval c) \<le> 0 then 1 * Second else MinFetchInterval c)"
    using assms by (auto simp: validate_def Let_def split: if_splits)
  moreover have "sint (30 * Second) = 30000000000" "sint (1 * Second) = 1000000000"
    by (simp_all add: Second_def)
  ultimately show ?thesis
    by (simp add: validate_frame)
qed

theorem validate_defaults_witness:
  "fst (validate ext0 (cfg0\<lparr>TerminateTimeout := 5 * Second, RestartSignal := Some 10\<rparr>)) = None
   \<and> RestartSignal (snd (validate ext0 cfg0)) = Some 12
   \<and> TerminateTimeout (snd (validate ext0 cfg0)) = 30 * Second
   \<and> MinFetchInterval (snd (validate ext0 cfg0)) = 1 * Second
   \<and> RestartSignal
       (snd (validate ext0 (cfg0\<lparr>TerminateTimeout := 5 * Second, RestartSignal := Some 10\<rparr>)))
       = Some 10
   \<and> TerminateTimeout
       (snd (validate ext0 (cfg0\<lparr>TerminateTimeout := 5 * Second, RestartSignal := Some 10\<rparr>)))
       = 5 * Second"
proof -
  have a: "fst (validate ext0 cfg0) = None"
    by (simp add: validate_ok_iff cfg0_def)
  have b: "fst (validate ext0
      (cfg0\<lparr>TerminateTimeout := 5 * Second, RestartSignal := Some 10\<rparr>)) = None"
    by (simp add: validate_ok_iff cfg0_def)
  show ?thesis
    using b validate_defaults [OF a] validate_defaults [OF b]
    by (simp add: cfg0_def ext0_def Second_def)
qed

section \<open>Startup\<close>


lemma sanityCheck_primary:
  "Getenv w envBinCheck \<noteq> [] \<Longrightarrow>
     sanityCheck w = (True, w\<lparr>stdout := stdout w @ Getenv w envBinCheck\<rparr>)"
  by (simp add: sanityCheck_def Let_def)

lemma sanityCheck_legacy:
  "Getenv w envBinCheck = [] \<Longrightarrow> Getenv w envBinCheckLegacy \<noteq> [] \<Longrightarrow>
     sanityCheck w = (True, w\<lparr>stdout := stdout w @ Getenv w envBinCheckLegacy\<rparr>)"
  by (simp add: sanityCheck_def Let_def)

lemma sanityCheck_none:
  "Getenv w envBinCheck = [] \<Longrightarrow> Getenv w envBinCheckLegacy = [] \<Longrightarrow>
     sanityCheck w = (False, w)"
  by (simp add: sanityCheck_def Let_def)

lemma Getenv_heap [simp]: "Getenv (w\<lparr>heap := h\<rparr>) k = Getenv w k"
  by (simp add: Getenv_def)

lemma Getenv_next_addr [simp]: "Getenv (w\<lparr>next_addr := n\<rparr>) k = Getenv w k"
  by (simp add: Getenv_def)

lemma runErr_unsupported:
  "\<not> supported ext \<Longrightarrow>
     runErr ext p w = (Some (''os ('' @ GOOS ext @ '') not supported''), w)"
  by (simp add: runErr_def)

lemma runErr_invalid:
  assumes "supported ext" and "fst (validate ext (heap w p)) = Some e"
  shows "runErr ext p w = (Some e, w)"
proof -
  from assms(2) have "snd (validate ext (heap w p)) = heap w p"
    by (simp add: validate_error_keeps)
  with assms(2) have "validate ext (heap w p) = (Some e, heap w p)"
    by (simp add: prod_eq_iff)
  with assms(1) show ?thesis
    by (simp add: runErr_def)
qed

lemma runErr_valid:
  assumes "supported ext" and "fst (validate ext (heap w p)) = None"
  shows "runErr ext p w =
     (case sanityCheck (w\<lparr>heap := (heap w)(p := snd (validate ext (heap w p)))\<rparr>) of
        (True, w2) \<Rightarrow> (None, w2)
      | (False, w2) \<Rightarrow>
          let q = (if Getenv w2 envIsSlave = ''1'' then slave p else master p);
              w3 = w2\<lparr>currentProcess := Some q\<rparr>
          in (proc_run ext q, w3\<lparr>trace := trace w3 @ [ProcessRun q]\<rparr>))"
proof (cases "validate ext (heap w p)")
  case (Pair a b)
  with assms show ?thesis
    by (simp add: runErr_def)
qed

lemma runErr_heap:
  "heap (snd (runErr ext p w)) =
     (heap w)(p := (if supported ext then snd (validate ext (heap w p)) else heap w p))"
proof (cases "supported ext")
  case False
  then show ?thesis by (simp add: runErr_unsupported)
next
  case True
  show ?thesis
  proof (cases "fst (validate ext (heap w p))")
    case None
    with True show ?thesis
      by (simp add: runErr_valid sanityCheck_def Let_def split: prod.splits bool.splits)
  next
    case (Some e)
    with True show ?thesis
      by (simp add: runErr_invalid validate_error_keeps)
  qed
qed


lemma RunErr_eq: "RunErr ext c w =
   runErr ext (next_addr w)
     (w\<lparr>heap := (heap w)(next_addr w := c), next_addr := Suc (next_addr w)\<rparr>)"
  by (simp add: RunErr_def param_def)

lemma Run_eq: "Run ext c w =
  (case RunErr ext c w of
     (Some err, w2) \<Rightarrow>
       if Required (heap w2 (next_addr w))
       then (Exited 1, log_Print (''[overseer] '' @ err) w2)
       else
         let w3 = (if Debug (heap w2 (next_addr w)) \<or> \<not> NoWarn (heap w2 (next_addr w))
                   then log_Print (''[overseer] disabled. run failed: '' @ err) w2
                   else w2)
         in (case Program (heap w3 (next_addr w)) of
               None \<Rightarrow> (Panicked, w3)
             | Some f \<Rightarrow>
                 (Returned, w3\<lparr>trace := trace w3 @ [ProgramCalled f DisabledState]\<rparr>))
   | (None, w2) \<Rightarrow> (Exited 0, w2))"
  by (simp add: Run_def RunErr_def param_def)

lemma RunErr_sanity:
  assumes "supported ext" and "fst (validate ext c) = None"
    and "Getenv w envBinCheck \<noteq> [] \<or> Getenv w envBinCheckLegacy \<noteq> []"
  shows "RunErr ext c w =
     (None, w\<lparr>heap := (heap w)(next_addr w := snd (validate ext c)),
              next_addr := Suc (next_addr w),
              stdout := stdout w @ (if Getenv w envBinCheck \<noteq> [] then Getenv w envBinCheck
                                    else Getenv w envBinCheckLegacy)\<rparr>)"
  using assms
  by (auto simp: RunErr_eq runErr_valid sanityCheck_def Let_def)

lemma RunErr_role:
  assumes "supported ext" and "fst (validate ext c) = None"
    and "Getenv w envBinCheck = []" and "Getenv w envBinCheckLegacy = []"
  shows "RunErr ext c w =
     (proc_run ext (if Getenv w envIsSlave = ''1'' then slave (next_addr w) else master (next_addr w)),
      w\<lparr>heap := (heap w)(next_addr w := snd (validate ext c)),
         next_addr := Suc (next_addr w),
         currentProcess := Some (if Getenv w envIsSlave = ''1'' then slave (next_addr w) else master (next_addr w)),
         trace := trace w @ [ProcessRun (if Getenv w envIsSlave = ''1'' then slave (next_addr w) else master (next_addr w))]\<rparr>)"
  using assms
  by (simp add: RunErr_eq runErr_valid sanityCheck_none Let_def Getenv_def)


lemma Getenv_environ_other:
  "k \<noteq> k' \<Longrightarrow> Getenv (w\<lparr>environ := (environ w)(k' \<mapsto> v)\<rparr>) k = Getenv w k"
  by (simp add: Getenv_def)

lemma RunErr_unsupported:
  "\<not> supported ext \<Longrightarrow>
     RunErr ext c w =
       (Some (''os ('' @ GOOS ext @ '') not supported''),
        w\<lparr>heap := (heap w)(next_addr w := c), next_addr := Suc (next_addr w)\<rparr>)"
  by (simp add: RunErr_eq runErr_unsupported)

lemma RunErr_invalid:
  "supported ext \<Longrightarrow> fst (validate ext c) = Some e \<Longrightarrow>
     RunErr ext c w =
       (Some e, w\<lparr>heap := (heap w)(next_addr w := c), next_addr := Suc (next_addr w)\<rparr>)"
  by (simp add: RunErr_eq runErr_invalid)

lemma Run_legacy_as_primary:
  assumes "Getenv w envBinCheck = []" and "Getenv w envBinCheckLegacy \<noteq> []"
  shows "Run ext c (w\<lparr>environ := (environ w)(envBinCheck \<mapsto> Getenv w envBinCheckLegacy)\<rparr>) =
     (fst (Run ext c w),
      (snd (Run ext c w))\<lparr>environ := (environ w)(envBinCheck \<mapsto> Getenv w envBinCheckLegacy)\<rparr>)"
proof -
  let ?w' = "w\<lparr>environ := (environ w)(envBinCheck \<mapsto> Getenv w envBinCheckLegacy)\<rparr>"
  have p: "Getenv ?w' envBinCheck = Getenv w envBinCheckLegacy"
    by (simp add: Getenv_def)
  show ?thesis
  proof (cases "supported ext")
    case False
    then show ?thesis
      by (simp add: Run_eq RunErr_unsupported log_Print_def Let_def split: option.splits)
  next
    case True
    show ?thesis
    proof (cases "fst (validate ext c)")
      case (Some e)
      with True show ?thesis
        by (simp add: Run_eq RunErr_invalid log_Print_def Let_def split: option.splits)
    next
      case None
      with True assms p show ?thesis
        by (simp add: Run_eq RunErr_sanity)
    qed
  qed
qed

section \<open>The sanity check\<close>




text \<open>
  C8. With the primary token variable empty or unset and the legacy variable non-empty,
  \<open>sanityCheck\<close> prints exactly the legacy token and reports a performed check,
  \<open>SanityCheck\<close> exits with status 0, and so does \<open>Run\<close> on a supported platform with
  a valid \<open>Config\<close>; the output and the result of \<open>sanityCheck\<close> are those of a
  process in which the primary variable holds the same token, and for every platform and
  every \<open>Config\<close>, \<open>Run\<close> ends the same way and leaves the same state as in that
  process (the environment apart).
\<close>

theorem legacy_sanity_token:
  assumes "Getenv w envBinCheck = []" and "Getenv w envBinCheckLegacy \<noteq> []"
  shows "sanityCheck w = (True, w\<lparr>stdout := stdout w @ Getenv w envBinCheckLegacy\<rparr>)
       \<and> SanityCheck w = (Exited 0, w\<lparr>stdout := stdout w @ Getenv w envBinCheckLegacy\<rparr>)
       \<and> fst (sanityCheck (w\<lparr>environ := (environ w)(envBinCheck \<mapsto> Getenv w envBinCheckLegacy)\<rparr>))
       \<and> stdout (snd (sanityCheck
            (w\<lparr>environ := (environ w)(envBinCheck \<mapsto> Getenv w envBinCheckLegacy)\<rparr>)))
           = stdout w @ Getenv w envBinCheckLegacy
       \<and> (supported ext \<and> fst (validate ext c) = None \<longrightarrow>
            Run ext c w =
              (Exited 0,
               w\<lparr>heap := (heap w)(next_addr w := snd (validate ext c)),
                  next_addr := Suc (next_addr w),
                  stdout := stdout w @ Getenv w envBinCheckLegacy\<rparr>))
       \<and> Run ext c (w\<lparr>environ := (environ w)(envBinCheck \<mapsto> Getenv w envBinCheckLegacy)\<rparr>) =
           (fst (Run ext c w),
            (snd (Run ext c w))
              \<lparr>environ := (environ w)(envBinCheck \<mapsto> Getenv w envBinCheckLegacy)\<rparr>)"
proof -
  have 1: "sanityCheck w = (True, w\<lparr>stdout := stdout w @ Getenv w envBinCheckLegacy\<rparr>)"
    using assms by (rule sanityCheck_legacy)
  have 2: "SanityCheck w = (Exited 0, w\<lparr>stdout := stdout w @ Getenv w envBinCheckLegacy\<rparr>)"
    by (simp add: SanityCheck_def 1)
  have 3: "Getenv (w\<lparr>environ := (environ w)(envBinCheck \<mapsto> Getenv w envBinCheckLegacy)\<rparr>)
      envBinCheck = Getenv w envBinCheckLegacy"
    by (simp add: Getenv_def)
  have 4: "sanityCheck (w\<lparr>environ := (environ w)(envBinCheck \<mapsto> Getenv w envBinCheckLegacy)\<rparr>)
     = (True, w\<lparr>environ := (environ w)(envBinCheck \<mapsto> Getenv w envBinCheckLegacy),
                stdout := stdout w @ Getenv w envBinCheckLegacy\<rparr>)"
    using assms(2) by (simp add: sanityCheck_primary 3)
  have 5: "supported ext \<and> fst (validate ext c) = None \<Longrightarrow>
            Run ext c w =
              (Exited 0,
               w\<lparr>heap := (heap w)(next_addr w := snd (validate ext c)),
                  next_addr := Suc (next_addr w),
                  stdout := stdout w @ Getenv w envBinCheckLegacy\<rparr>)"
    using assms by (simp add: Run_eq RunErr_sanity)
  note 6 = Run_legacy_as_primary [OF assms, of ext c]
  from 1 2 4 5 6 show ?thesis by simp
qed

theorem legacy_sanity_token_witness:
  "Getenv world_legacy envBinCheck = [] \<and> Getenv world_legacy envBinCheckLegacy = ''tok''
   \<and> sanityCheck world_legacy = (True, world_legacy\<lparr>stdout := ''tok''\<rparr>)
   \<and> SanityCheck world_legacy = (Exited 0, world_legacy\<lparr>stdout := ''tok''\<rparr>)
   \<and> fst (Run ext0 cfg0 world_legacy) = Exited 0
   \<and> stdout (snd (Run ext0 cfg0 world_legacy)) = ''tok''"
proof -
  have a: "Getenv world_legacy envBinCheck = []"
    by (simp add: world_legacy_def Getenv_def envBinCheck_def envBinCheckLegacy_def)
  have b: "Getenv world_legacy envBinCheckLegacy = ''tok''"
    by (simp add: world_legacy_def Getenv_def)
  have b': "Getenv world_legacy envBinCheckLegacy \<noteq> []"
    by (simp add: b)
  have c: "supported ext0 \<and> fst (validate ext0 cfg0) = None"
    by (simp add: validate_ok_iff ext0_def cfg0_def)
  have d: "stdout world_legacy = []"
    by (simp add: world_legacy_def world0_def)
  show ?thesis
    using a b c legacy_sanity_token [OF a b', of ext0 cfg0]
    by (simp add: d)
qed

section \<open>Falling back to the program\<close>




section \<open>Role resolution\<close>

text \<open>
  C4, as stated, fails: with the marker variable present and holding \<open>0\<close>, the process
  runs the master. The code compares the marker with \<open>1\<close>.
\<close>

theorem role_marker_counterexample:
  "Getenv world_marker envIsSlave = ''0''
   \<and> Getenv world_marker envBinCheck = [] \<and> Getenv world_marker envBinCheckLegacy = []
   \<and> supported ext0 \<and> fst (validate ext0 cfg0) = None
   \<and> currentProcess (snd (RunErr ext0 cfg0 world_marker)) = Some (master 0)
   \<and> trace (snd (RunErr ext0 cfg0 world_marker)) = [ProcessRun (master 0)]"
  by (simp add: RunErr_def param_def runErr_def validate_def sanityCheck_def
      ext0_def cfg0_def world0_def world_marker_def Getenv_def Let_def
      envBinCheck_def envBinCheckLegacy_def envIsSlave_def)

text \<open>
  C4, amended. On a supported platform, with a \<open>Config\<close> that passes validation and
  both token variables (primary and legacy) empty or unset: if the marker variable holds
  exactly \<open>1\<close>, the slave is constructed on the callee's \<open>Config\<close>, stored in
  \<open>currentProcess\<close> and run; for every other content of the marker (unset, empty, or any
  other value) the master is constructed, stored and run. The result of startup is the
  result of that run.
\<close>

theorem role_resolution:
  assumes "supported ext" and "fst (validate ext c) = None"
    and "Getenv w envBinCheck = []" and "Getenv w envBinCheckLegacy = []"
  shows "(Getenv w envIsSlave = ''1'' \<longrightarrow>
            RunErr ext c w =
              (proc_run ext (slave (next_addr w)),
               w\<lparr>heap := (heap w)(next_addr w := snd (validate ext c)),
                  next_addr := Suc (next_addr w),
                  currentProcess := Some (slave (next_addr w)),
                  trace := trace w @ [ProcessRun (slave (next_addr w))]\<rparr>))
       \<and> (Getenv w envIsSlave \<noteq> ''1'' \<longrightarrow>
            RunErr ext c w =
              (proc_run ext (master (next_addr w)),
               w\<lparr>heap := (heap w)(next_addr w := snd (validate ext c)),
                  next_addr := Suc (next_addr w),
                  currentProcess := Some (master (next_addr w)),
                  trace := trace w @ [ProcessRun (master (next_addr w))]\<rparr>))"
  using RunErr_role [OF assms] by simp

theorem role_resolution_witness:
  "Getenv world_slave envIsSlave = ''1''
   \<and> currentProcess (snd (RunErr ext0 cfg0 world_slave)) = Some (slave 0)
   \<and> trace (snd (RunErr ext0 cfg0 world_slave)) = [ProcessRun (slave 0)]
   \<and> Getenv world0 envIsSlave = []
   \<and> currentProcess (snd (RunErr ext0 cfg0 world0)) = Some (master 0)
   \<and> trace (snd (RunErr ext0 cfg0 world0)) = [ProcessRun (master 0)]"
proof -
  have a: "supported ext0" "fst (validate ext0 cfg0) = None"
    by (simp_all add: validate_ok_iff ext0_def cfg0_def)
  have b: "Getenv world_slave envBinCheck = []" "Getenv world_slave envBinCheckLegacy = []"
    "Getenv world_slave envIsSlave = ''1''"
    by (simp_all add: world_slave_def world0_def Getenv_def envBinCheck_def
        envBinCheckLegacy_def envIsSlave_def)
  have c: "Getenv world0 envBinCheck = []" "Getenv world0 envBinCheckLegacy = []"
    "Getenv world0 envIsSlave = []"
    by (simp_all add: world0_def Getenv_def)
  have d: "next_addr world_slave = 0" "trace world_slave = []"
    "next_addr world0 = 0" "trace world0 = []"
    by (simp_all add: world_slave_def world0_def)
  show ?thesis
    using role_resolution [OF a b(1,2)] role_resolution [OF a c(1,2)]
    by (simp add: b c d)
qed

section \<open>Restart before start\<close>

text \<open>
  C9. While \<open>currentProcess\<close> is nil, \<open>Restart\<close> returns without a panic and leaves the
  whole state as it was.
\<close>

theorem Restart_before_start:
  "currentProcess w = None \<Longrightarrow> Restart w = (Returned, w)"
  by (simp add: Restart_def)

theorem Restart_before_start_witness:
  "currentProcess world0 = None \<and> Restart world0 = (Returned, world0)"
proof -
  have a: "currentProcess world0 = None"
    by (simp add: world0_def)
  show ?thesis
    using a Restart_before_start [OF a] by simp
qed

section \<open>The caller's Config\<close>

text \<open>
  C10. \<open>RunErr\<close> and \<open>Run\<close> leave every \<open>Config\<close> variable that existed before the call
  as it was, the caller's among them: validation writes to the callee's own copy only
  (the last conjunct: on a supported platform the copy holds the validated \<open>Config\<close>).
  \<open>Addresses\<close> is a slice, which a copy shares with the original, but \<open>validate\<close> never
  writes an element of it: it assigns a new one-element slice to the copy's field.
\<close>

theorem Run_by_value:
  assumes "a < next_addr w"
  shows "heap (snd (RunErr ext c w)) a = heap w a
       \<and> heap (snd (Run ext c w)) a = heap w a
       \<and> heap (snd (RunErr ext c w)) (next_addr w) =
           (if supported ext then snd (validate ext c) else c)"
proof -
  have 1: "heap (snd (RunErr ext c w)) =
     (heap w)(next_addr w := (if supported ext then snd (validate ext c) else c))"
    by (simp add: RunErr_def param_def runErr_heap)
  have 2: "heap (snd (Run ext c w)) = heap (snd (RunErr ext c w))"
    by (simp add: Run_def RunErr_def param_def log_Print_def Let_def
        split: prod.splits option.splits)
  from assms 1 2 show ?thesis by simp
qed

theorem Run_by_value_witness:
  "(0::nat) < next_addr world1
   \<and> heap world1 0 = cfg0
   \<and> heap (snd (RunErr ext0 cfg0 world1)) 0 = cfg0
   \<and> heap (snd (Run ext0 cfg0 world1)) 0 = cfg0
   \<and> heap (snd (RunErr ext0 cfg0 world1)) (next_addr world1) \<noteq> cfg0"
proof -
  have a: "(0::nat) < next_addr world1"
    by (simp add: world1_def)
  have b: "snd (validate ext0 cfg0) \<noteq> cfg0"
    by (simp add: validate_def cfg0_def Let_def Second_def)
  have c: "heap world1 0 = cfg0" "supported ext0"
    by (simp_all add: world1_def world0_def ext0_def)
  show ?thesis
    using a b c Run_by_value [OF a, of ext0 cfg0]
    by simp
qed

section \<open>Validation gating in the upgrade pipeline\<close>

lemma upgrade_paths:
  "binPath (upgrade cand tok ren m) = binPath m" "tmpPath (upgrade cand tok ren m) = tmpPath m"
  by (simp_all add: upgrade_def discard_def Let_def split: option.splits)

lemma fetch_cycle_paths:
  "binPath (fetch_cycle cy m) = binPath m" "tmpPath (fetch_cycle cy m) = tmpPath m"
  by (simp_all add: fetch_cycle_def upgrade_paths split: fetched.splits)

lemma upgrade_rejected:
  assumes "tmpPath m \<noteq> binPath m"
    and "hook_error cand \<noteq> None \<or> \<not> token_matches tok (check_run cand tok) \<or> \<not> ren"
  shows "trusted (upgrade cand tok ren m) = trusted m"
    and "generation (upgrade cand tok ren m) = generation m"
  using assms
  by (auto simp: upgrade_def discard_def trusted_def Let_def split: option.splits)

lemma upgrade_deletes:
  assumes "hook_error cand \<noteq> None \<or> \<not> token_matches tok (check_run cand tok)"
  shows "files (upgrade cand tok ren m) (tmpPath m) = None"
  using assms
  by (auto simp: upgrade_def discard_def Let_def split: option.splits)

lemma upgrade_accepted:
  assumes "hook_error cand = None" and "token_matches tok (check_run cand tok)" and "ren"
  shows "trusted (upgrade cand tok ren m) = Some (bytes cand)"
    and "generation (upgrade cand tok ren m) = Suc (generation m)"
  using assms
  by (simp_all add: upgrade_def trusted_def Let_def)

lemma fetch_cycle_effect:
  assumes "tmpPath m \<noteq> binPath m"
  shows "trusted (fetch_cycle cy m) = (case swapped cy of None \<Rightarrow> trusted m | Some b \<Rightarrow> Some b)"
    and "generation (fetch_cycle cy m) =
           (case swapped cy of None \<Rightarrow> generation m | Some b \<Rightarrow> Suc (generation m))"
proof -
  show "trusted (fetch_cycle cy m) = (case swapped cy of None \<Rightarrow> trusted m | Some b \<Rightarrow> Some b)"
  proof (cases "fetch_result cy")
    case NoUpdate
    then show ?thesis by (simp add: fetch_cycle_def swapped_def)
  next
    case (FetchError e)
    then show ?thesis by (simp add: fetch_cycle_def swapped_def trusted_def)
  next
    case (NewBinary cand)
    then show ?thesis
      using upgrade_rejected(1) [OF assms, of cand "token cy" "rename_ok cy"]
        upgrade_accepted(1) [of cand "token cy" "rename_ok cy" m]
      by (auto simp: fetch_cycle_def swapped_def)
  qed
  show "generation (fetch_cycle cy m) =
           (case swapped cy of None \<Rightarrow> generation m | Some b \<Rightarrow> Suc (generation m))"
  proof (cases "fetch_result cy")
    case NoUpdate
    then show ?thesis by (simp add: fetch_cycle_def swapped_def)
  next
    case (FetchError e)
    then show ?thesis by (simp add: fetch_cycle_def swapped_def)
  next
    case (NewBinary cand)
    then show ?thesis
      using upgrade_rejected(2) [OF assms, of cand "token cy" "rename_ok cy"]
        upgrade_accepted(2) [of cand "token cy" "rename_ok cy" m]
      by (auto simp: fetch_cycle_def swapped_def)
  qed
qed

lemma fetch_loop_generation:
  "tmpPath m \<noteq> binPath m \<Longrightarrow>
     generation (fetch_loop cys m) = generation m + length (accepted cys)"
proof (induction cys arbitrary: m)
  case Nil
  then show ?case by simp
next
  case (Cons cy cys)
  from Cons.prems have "tmpPath (fetch_cycle cy m) \<noteq> binPath (fetch_cycle cy m)"
    by (simp add: fetch_cycle_paths)
  from Cons.IH [OF this] Cons.prems show ?case
    by (simp add: fetch_cycle_effect split: option.splits)
qed

lemma fetch_loop_trusted:
  "tmpPath m \<noteq> binPath m \<Longrightarrow>
     trusted (fetch_loop cys m) =
       (if accepted cys = [] then trusted m else Some (last (accepted cys)))"
proof (induction cys arbitrary: m)
  case Nil
  then show ?case by simp
next
  case (Cons cy cys)
  from Cons.prems have "tmpPath (fetch_cycle cy m) \<noteq> binPath (fetch_cycle cy m)"
    by (simp add: fetch_cycle_paths)
  from Cons.IH [OF this] Cons.prems show ?case
    by (simp add: fetch_cycle_effect split: option.splits)
qed

text \<open>
  C1. With the temporary path different from the running binary's path: a candidate whose
  pre-upgrade hook returns an error, or whose sanity check fails (wrong output, timeout,
  non-zero exit), leaves the trusted binary and the generation identifier as they were,
  and its temporary file is deleted; a candidate that passes both, when the rename
  succeeds, becomes the trusted binary and the generation advances by one. Over any run
  of fetch cycles, the generation has advanced once for each candidate swapped in, and the
  trusted binary is the last of them, or the initial one if there is none.
\<close>

theorem validation_gating:
  assumes "tmpPath m \<noteq> binPath m"
  shows "(hook_error cand \<noteq> None \<or> \<not> token_matches tok (check_run cand tok) \<longrightarrow>
            trusted (upgrade cand tok ren m) = trusted m
            \<and> generation (upgrade cand tok ren m) = generation m
            \<and> files (upgrade cand tok ren m) (tmpPath m) = None)
       \<and> (hook_error cand = None \<and> token_matches tok (check_run cand tok) \<and> ren \<longrightarrow>
            trusted (upgrade cand tok ren m) = Some (bytes cand)
            \<and> generation (upgrade cand tok ren m) = Suc (generation m))
       \<and> \<not> token_matches tok Timeout
       \<and> (token_matches tok (Output out status) \<longleftrightarrow> out = tok \<and> status = 0)
       \<and> generation (fetch_loop cys m) = generation m + length (accepted cys)
       \<and> trusted (fetch_loop cys m) =
           (if accepted cys = [] then trusted m else Some (last (accepted cys)))"
proof -
  have "\<not> token_matches tok Timeout"
    "token_matches tok (Output out status) \<longleftrightarrow> out = tok \<and> status = 0"
    by (simp_all add: token_matches_def)
  with assms show ?thesis
    by (simp add: upgrade_rejected upgrade_deletes upgrade_accepted
        fetch_loop_generation fetch_loop_trusted)
qed

theorem validation_gating_witness:
  "tmpPath master0 \<noteq> binPath master0
   \<and> trusted (upgrade cand_hook ''tok'' True master0) = Some ''v1''
   \<and> generation (upgrade cand_hook ''tok'' True master0) = 1
   \<and> trusted (upgrade cand_timeout ''tok'' True master0) = Some ''v1''
   \<and> generation (upgrade cand_timeout ''tok'' True master0) = 1
   \<and> trusted (upgrade cand_good ''tok'' True master0) = Some ''v2''
   \<and> generation (upgrade cand_good ''tok'' True master0) = 2
   \<and> generation (fetch_loop cycles0 master0) = 2
   \<and> trusted (fetch_loop cycles0 master0) = Some ''v2''"
proof -
  have a: "tmpPath master0 \<noteq> binPath master0"
    by (simp add: master0_def)
  have b: "hook_error cand_hook \<noteq> None"
    "\<not> token_matches ''tok'' (check_run cand_timeout ''tok'')"
    "hook_error cand_good = None \<and> token_matches ''tok'' (check_run cand_good ''tok'')"
    "bytes cand_good = ''v2''"
    by (simp_all add: cand_hook_def cand_timeout_def cand_good_def token_matches_def)
  have c: "trusted master0 = Some ''v1''" "generation master0 = 1"
    by (simp_all add: master0_def trusted_def)
  have d: "accepted cycles0 = [''v2'']"
    by (simp add: cycles0_def swapped_def token_matches_def cand_hook_def cand_good_def
        cand_output_def cand_timeout_def cand_status_def)
  show ?thesis
    using a validation_gating [OF a, where cand = cand_hook and tok = "''tok''" and ren = True]
      validation_gating [OF a, where cand = cand_timeout and tok = "''tok''" and ren = True]
      validation_gating [OF a, where cand = cand_good and tok = "''tok''" and ren = True
        and cys = cycles0]
    by (simp add: b c d)
qed

end
